theory Spec2Isabelle
  imports Complex_Main
begin

section \<open>Error model\<close>

text \<open>
  The decoding engine of \<^verbatim>\<open>typedjson/decoding.py\<close>.  A path is a Python tuple of
  strings.  The three failure reasons are exception classes that are never raised by the
  engine: they are wrapped in a \<^verbatim>\<open>DecodingError\<close> and returned.  Exceptions that really
  are raised (by the Python runtime or by a constructor called from the engine) are
  values of \<open>pyexc\<close>.
\<close>

type_synonym path = "string list"

datatype pyexc =
    TypeError string
  | ValueError string
  | IndexError string
  | RuntimeError string
  | OverflowError string
  | UnboundLocalError string
  | OtherException string string

text \<open>
  An \<^verbatim>\<open>InitializationError\<close> holds a reference to the \<^verbatim>\<open>TypeError\<close> it wraps.  In a
  result of the engine that failure is kept by its content, a \<open>pyexc\<close>.  Where two
  reasons are compared it is an object: \<^verbatim>\<open>TypeError\<close> defines no \<^verbatim>\<open>__eq__\<close>, so Python
  compares two of them by identity, and an \<open>exception_object\<close> is the address of the
  object together with its content.  The classes are the same in both readings, so their
  datatypes take what the field \<^verbatim>\<open>underlying\<close> holds as a parameter.
\<close>

datatype 'u reason_of =
    TypeMismatch path
  | UnsupportedDecoding path
  | InitializationError path 'u

type_synonym failure_reason = "pyexc reason_of"

datatype 'u error_of = DecodingError "'u reason_of"

type_synonym decoding_error = "pyexc error_of"

datatype exception_object = ExceptionObject nat pyexc

fun address :: "exception_object \<Rightarrow> nat" where
  "address (ExceptionObject a e) = a"

fun reason :: "'u error_of \<Rightarrow> 'u reason_of" where
  "reason (DecodingError r) = r"

fun path_of :: "'u reason_of \<Rightarrow> path" where
  "path_of (TypeMismatch p) = p"
| "path_of (UnsupportedDecoding p) = p"
| "path_of (InitializationError p u) = p"

text \<open>The class of a reason, as \<^verbatim>\<open>isinstance\<close> tests it.\<close>

datatype reason_class = TypeMismatchClass | UnsupportedDecodingClass | InitializationErrorClass

fun class_of :: "'u reason_of \<Rightarrow> reason_class" where
  "class_of (TypeMismatch p) = TypeMismatchClass"
| "class_of (UnsupportedDecoding p) = UnsupportedDecodingClass"
| "class_of (InitializationError p u) = InitializationErrorClass"

text \<open>
  \<^verbatim>\<open>==\<close> between two exception objects whose class defines no \<^verbatim>\<open>__eq__\<close>: they are equal
  when they are the same object.
\<close>

definition exception_eq :: "exception_object \<Rightarrow> exception_object \<Rightarrow> bool" where
  "exception_eq u w = (address u = address w)"

text \<open>
  The \<^verbatim>\<open>__eq__\<close> methods.  Each one dispatches on the class of \<^verbatim>\<open>self\<close> and tests
  \<^verbatim>\<open>isinstance(x, ...)\<close>.  \<^verbatim>\<open>InitializationError.__eq__\<close> compares the two underlying
  \<^verbatim>\<open>TypeError\<close> objects with \<^verbatim>\<open>==\<close> and then the paths; paths are tuples of strings,
  compared element by element.
\<close>

fun reason_eq :: "exception_object reason_of \<Rightarrow> exception_object reason_of \<Rightarrow> bool" where
  "reason_eq (TypeMismatch p) x =
     (if class_of x = TypeMismatchClass then p = path_of x else False)"
| "reason_eq (UnsupportedDecoding p) x =
     (if class_of x = UnsupportedDecodingClass then p = path_of x else False)"
| "reason_eq (InitializationError p u) x =
     (case x of
        InitializationError q w \<Rightarrow> exception_eq u w \<and> p = q
      | _ \<Rightarrow> False)"

fun decoding_error_eq :: "exception_object error_of \<Rightarrow> exception_object error_of \<Rightarrow> bool" where
  "decoding_error_eq (DecodingError r) x = reason_eq r (reason x)"

text \<open>
  What a call of a strategy or of the dispatcher does: it returns a decoded value, returns
  a \<^verbatim>\<open>DecodingError\<close>, or an exception escapes from it.
\<close>

datatype 'a outcome = Decoded 'a | Failed decoding_error | Raised pyexc

section \<open>Values and type descriptors\<close>

text \<open>
  Python values the engine can be given or can produce.  A character of a \<open>string\<close> stands
  for one code point.  A \<^verbatim>\<open>dict\<close> is the list of its items in iteration order.  Dates and
  timestamps are kept by an integer payload; an instance of a user class is kept by the
  class name and its fields.
\<close>

datatype pyval =
    VNone
  | VBool bool
  | VInt int
  | VFloat real
  | VStr string
  | VDate int
  | VDatetime int
  | VList "pyval list"
  | VTuple "pyval list"
  | VDict "(pyval \<times> pyval) list"
  | VObject string "(string \<times> pyval) list"

datatype pyscalar = PyStr | PyInt | PyBool | PyNoneType | PyDate | PyDatetime | PyFloat

datatype origin = OUnion | OTuple | OList | ODict | OOther string

text \<open>
  Type descriptors, as the reflection module \<^verbatim>\<open>typedjson.annotation\<close> presents them: the
  built-in scalar classes, \<^verbatim>\<open>Any\<close>, the variadic marker \<^verbatim>\<open>...\<close>, a \<^verbatim>\<open>TypeVar\<close>, a
  subscripted generic with its origin and arguments, a class with its field hints, and a
  scalar type declared over a wire supertype.
\<close>

datatype ty =
    TScalar pyscalar
  | TAny
  | TEllipsis
  | TTypeVar string
  | TGeneric origin "ty list"
  | TClass string "(string \<times> ty) list"
  | TNewType string pyscalar

text \<open>
  Modelled from the spec: the four queries of \<^verbatim>\<open>typedjson.annotation\<close>, which is not part
  of the sources.  \<open>origin_of\<close> is the structural category or none; \<open>args_of\<close> the ordered
  type arguments; \<open>hints_of\<close> the ordered field hints, or none if the descriptor is not a
  record shape; \<open>supertype_of\<close> the optional wire supertype.
\<close>

fun origin_of :: "ty \<Rightarrow> origin option" where
  "origin_of (TGeneric orig args) = Some orig"
| "origin_of _ = None"

fun args_of :: "ty \<Rightarrow> ty list" where
  "args_of (TGeneric orig args) = args"
| "args_of _ = []"

fun hints_of :: "ty \<Rightarrow> (string \<times> ty) list option" where
  "hints_of (TClass name hints) = Some hints"
| "hints_of _ = None"

fun supertype_of :: "ty \<Rightarrow> pyscalar option" where
  "supertype_of (TNewType name s) = Some s"
| "supertype_of _ = None"

section \<open>The Python runtime\<close>

text \<open>
  What the engine asks of the interpreter and of the classes it instantiates:
  \<^item> \<open>float_of_int\<close>: \<^verbatim>\<open>float(json)\<close> on an \<^verbatim>\<open>int\<close> (it can raise \<^verbatim>\<open>OverflowError\<close>);
  \<^item> \<open>str_of\<close>: \<^verbatim>\<open>str(key)\<close> on a key that is not a \<^verbatim>\<open>str\<close>;
  \<^item> \<open>hashable_object\<close>: whether instances of a user class can be hashed;
  \<^item> \<open>key_eq\<close>: \<^verbatim>\<open>==\<close> between two hashable keys of a \<^verbatim>\<open>dict\<close>;
  \<^item> \<open>construct\<close>: \<^verbatim>\<open>type_(**parameters)\<close>, the keyword-style call of a class;
  \<^item> \<open>rehydrate\<close>: \<^verbatim>\<open>type_(json)\<close>, the call of a scalar type on its wire value.
\<close>

record runtime =
  float_of_int :: "int \<Rightarrow> pyexc + real"
  str_of :: "pyval \<Rightarrow> string"
  hashable_object :: "string \<Rightarrow> bool"
  key_eq :: "pyval \<Rightarrow> pyval \<Rightarrow> bool"
  construct :: "ty \<Rightarrow> (string \<times> pyval) list \<Rightarrow> pyexc + pyval"
  rehydrate :: "ty \<Rightarrow> pyval \<Rightarrow> pyexc + pyval"

text \<open>\<^verbatim>\<open>type(json)\<close>, where it is one of the built-in scalar classes.\<close>

fun type_of :: "pyval \<Rightarrow> pyscalar option" where
  "type_of VNone = Some PyNoneType"
| "type_of (VBool b) = Some PyBool"
| "type_of (VInt i) = Some PyInt"
| "type_of (VFloat f) = Some PyFloat"
| "type_of (VStr s) = Some PyStr"
| "type_of (VDate d) = Some PyDate"
| "type_of (VDatetime d) = Some PyDatetime"
| "type_of _ = None"

text \<open>
  \<^verbatim>\<open>isinstance(json, supertype)\<close> for a built-in scalar class: \<^verbatim>\<open>bool\<close> is a subclass of
  \<^verbatim>\<open>int\<close> and \<^verbatim>\<open>datetime\<close> of \<^verbatim>\<open>date\<close>.  Containers and instances of user classes are
  instances of none of them.
\<close>

definition issubclass :: "pyscalar \<Rightarrow> pyscalar \<Rightarrow> bool" where
  "issubclass c s = (c = s \<or> (c = PyBool \<and> s = PyInt) \<or> (c = PyDatetime \<and> s = PyDate))"

definition isinstance :: "pyval \<Rightarrow> pyscalar \<Rightarrow> bool" where
  "isinstance json s = (case type_of json of Some c \<Rightarrow> issubclass c s | None \<Rightarrow> False)"

text \<open>
  Iteration: a \<^verbatim>\<open>str\<close> yields its characters as strings, a \<^verbatim>\<open>list\<close> or \<^verbatim>\<open>tuple\<close> its
  elements, a \<^verbatim>\<open>dict\<close> its keys; nothing else is iterable.  The same values, and only
  they, have a \<^verbatim>\<open>len\<close>.
\<close>

fun py_iter :: "pyval \<Rightarrow> pyval list option" where
  "py_iter (VStr s) = Some (map (\<lambda>c. VStr [c]) s)"
| "py_iter (VList xs) = Some xs"
| "py_iter (VTuple xs) = Some xs"
| "py_iter (VDict items) = Some (map fst items)"
| "py_iter _ = None"

definition py_len :: "pyval \<Rightarrow> pyexc + nat" where
  "py_len json =
     (case py_iter json of
        Some xs \<Rightarrow> Inr (length xs)
      | None \<Rightarrow> Inl (TypeError ''object has no len()''))"

text \<open>\<^verbatim>\<open>str(index)\<close> for the index of \<^verbatim>\<open>enumerate\<close>: the decimal digits.\<close>

fun str_nat :: "nat \<Rightarrow> string" where
  "str_nat n = (if n < 10 then [''0123456789'' ! n] else str_nat (n div 10) @ [''0123456789'' ! (n mod 10)])"

declare str_nat.simps [simp del]

definition py_str :: "runtime \<Rightarrow> pyval \<Rightarrow> string" where
  "py_str rt key = (case key of VStr s \<Rightarrow> s | _ \<Rightarrow> str_of rt key)"

text \<open>\<^verbatim>\<open>float(json)\<close>, called only when \<^verbatim>\<open>type(json)\<close> is \<^verbatim>\<open>float\<close> or \<^verbatim>\<open>int\<close>.\<close>

fun py_float :: "runtime \<Rightarrow> pyval \<Rightarrow> pyval outcome" where
  "py_float rt (VFloat f) = Decoded (VFloat f)"
| "py_float rt (VInt i) = (case float_of_int rt i of Inl e \<Rightarrow> Raised e | Inr f \<Rightarrow> Decoded (VFloat f))"
| "py_float rt _ = Raised (TypeError ''float() argument must be a string or a real number'')"

text \<open>
  Dictionaries: \<^verbatim>\<open>p in json\<close> and \<^verbatim>\<open>json.get(key)\<close> for a \<^verbatim>\<open>str\<close> key, and the
  assignment \<^verbatim>\<open>d[k] = v\<close>, which raises \<^verbatim>\<open>TypeError\<close> on an unhashable key, replaces the
  value of an equal key in place and otherwise appends the item.
\<close>

definition dict_contains :: "(pyval \<times> pyval) list \<Rightarrow> string \<Rightarrow> bool" where
  "dict_contains items p = (VStr p \<in> set (map fst items))"

definition dict_get :: "(pyval \<times> pyval) list \<Rightarrow> string \<Rightarrow> pyval" where
  "dict_get items key = (case map_of items (VStr key) of Some v \<Rightarrow> v | None \<Rightarrow> VNone)"

fun py_hashable :: "runtime \<Rightarrow> pyval \<Rightarrow> bool" where
  "py_hashable rt (VList xs) = False"
| "py_hashable rt (VDict items) = False"
| "py_hashable rt (VTuple xs) = list_all (py_hashable rt) xs"
| "py_hashable rt (VObject name attrs) = hashable_object rt name"
| "py_hashable rt _ = True"

fun dict_store :: "runtime \<Rightarrow> (pyval \<times> pyval) list \<Rightarrow> pyval \<Rightarrow> pyval \<Rightarrow> (pyval \<times> pyval) list" where
  "dict_store rt [] k v = [(k, v)]"
| "dict_store rt ((k', v') # items) k v =
     (if key_eq rt k' k then (k', v) # items else (k', v') # dict_store rt items k v)"

definition dict_setitem :: "runtime \<Rightarrow> (pyval \<times> pyval) list \<Rightarrow> pyval \<Rightarrow> pyval \<Rightarrow> pyexc + (pyval \<times> pyval) list" where
  "dict_setitem rt items k v =
     (if py_hashable rt k then Inr (dict_store rt items k v) else Inl (TypeError ''unhashable type''))"


section \<open>The strategies and the dispatcher\<close>

text \<open>
  The loop of \<^verbatim>\<open>decode\<close> over the results of the decoders, taken in order, with the
  variable \<^verbatim>\<open>result_final\<close>: a \<^verbatim>\<open>DecodingError\<close> whose reason is not an
  \<^verbatim>\<open>UnsupportedDecoding\<close> is stored, any other result is a success and ends the loop.
  The results after a success or after an escaping exception belong to calls that Python
  never makes; the loop does not look at them.
\<close>

fun run_decoders :: "decoding_error \<Rightarrow> pyval outcome list \<Rightarrow> pyval outcome" where
  "run_decoders result_final [] = Failed result_final"
| "run_decoders result_final (result # rest) =
     (case result of
        Decoded v \<Rightarrow> Decoded v
      | Failed err \<Rightarrow>
          (if class_of (reason err) \<noteq> UnsupportedDecodingClass
           then run_decoders err rest
           else run_decoders result_final rest)
      | Raised e \<Rightarrow> Raised e)"

definition primitives :: "ty list" where
  "primitives = [TScalar PyStr, TScalar PyInt, TScalar PyBool, TScalar PyNoneType, TScalar PyDate, TScalar PyDatetime]"

definition decode_as_primitive :: "runtime \<Rightarrow> ty \<Rightarrow> pyval \<Rightarrow> path \<Rightarrow> pyval outcome" where
  "decode_as_primitive rt t json path =
     (let supertype = supertype_of t in
      if t = TScalar PyFloat then
        (if type_of json \<in> {Some PyFloat, Some PyInt} then py_float rt json
         else Failed (DecodingError (TypeMismatch path)))
      else if t \<in> set primitives then
        (if map_option TScalar (type_of json) = Some t then Decoded json
         else Failed (DecodingError (TypeMismatch path)))
      else
        (case supertype of
           Some s \<Rightarrow>
             (if isinstance json s
              then (case rehydrate rt t json of Inl e \<Rightarrow> Raised e | Inr v \<Rightarrow> Decoded v)
              else Failed (DecodingError (TypeMismatch path)))
         | None \<Rightarrow> Failed (DecodingError (UnsupportedDecoding path))))"

definition decode_as_any :: "runtime \<Rightarrow> ty \<Rightarrow> pyval \<Rightarrow> path \<Rightarrow> pyval outcome" where
  "decode_as_any rt t json path =
     (if t = TAny then Decoded json else Failed (DecodingError (UnsupportedDecoding path)))"

text \<open>
  The two local functions of \<^verbatim>\<open>decode_as_tuple\<close>.  \<^verbatim>\<open>_required_length\<close> reads
  \<^verbatim>\<open>args[-1]\<close>, which raises on the empty tuple.  \<open>iter_args lst args n\<close> is what the
  generator \<^verbatim>\<open>_iter_args\<close>, with its variable \<^verbatim>\<open>last\<close> equal to \<open>lst\<close> and \<open>args\<close>
  still to walk, gives at its \<open>n\<close>-th next request: a descriptor, the \<^verbatim>\<open>RuntimeError\<close> of
  the bare \<^verbatim>\<open>raise\<close>, or nothing when it is exhausted.  At the marker \<^verbatim>\<open>...\<close> it yields
  \<^verbatim>\<open>last\<close> for ever.
\<close>

definition required_length :: "ty list \<Rightarrow> pyexc + int" where
  "required_length args =
     (if args = [] then Inl (IndexError ''tuple index out of range'')
      else if last args = TEllipsis then Inr (int (length args) - 2)
      else Inr (int (length args)))"

fun iter_args :: "ty option \<Rightarrow> ty list \<Rightarrow> nat \<Rightarrow> (pyexc + ty) option" where
  "iter_args lst [] n = None"
| "iter_args lst (t # ts) n =
     (if t = TEllipsis then
        (case lst of
           None \<Rightarrow> Some (Inl (RuntimeError ''No active exception to reraise''))
         | Some l \<Rightarrow> Some (Inr l))
      else (case n of 0 \<Rightarrow> Some (Inr t) | Suc m \<Rightarrow> iter_args (Some t) ts m))"

text \<open>\<^verbatim>\<open>type_.__class__ is TypeVar\<close>\<close>

fun is_TypeVar :: "ty \<Rightarrow> bool" where
  "is_TypeVar (TTypeVar name) = True"
| "is_TypeVar _ = False"

text \<open>
  The dictionary \<^verbatim>\<open>parameters\<close> of \<^verbatim>\<open>decode_as_class\<close> holds the result of every
  \<^verbatim>\<open>_decode\<close> call.  The comprehension makes all the calls before the loop over
  \<^verbatim>\<open>parameters.values()\<close> looks for a \<^verbatim>\<open>DecodingError\<close>, so an exception of any call
  escapes first.
\<close>

fun find_raised :: "(string \<times> pyval outcome) list \<Rightarrow> pyexc option" where
  "find_raised [] = None"
| "find_raised ((p, Raised e) # ps) = Some e"
| "find_raised (_ # ps) = find_raised ps"

fun find_failed :: "(string \<times> pyval outcome) list \<Rightarrow> decoding_error option" where
  "find_failed [] = None"
| "find_failed ((p, Failed err) # ps) = Some err"
| "find_failed (_ # ps) = find_failed ps"

fun decoded_parameters :: "(string \<times> pyval outcome) list \<Rightarrow> (string \<times> pyval) list" where
  "decoded_parameters [] = []"
| "decoded_parameters ((p, Decoded v) # ps) = (p, v) # decoded_parameters ps"
| "decoded_parameters (_ # ps) = decoded_parameters ps"

text \<open>Every recursive call is on a descriptor inside the descriptor at hand.\<close>

lemma size_args_of: "origin_of t = Some orig \<Longrightarrow> size t = Suc (size_list size (args_of t))"
  by (cases t) simp_all

lemma size_hints_of: "hints_of t = Some hints \<Longrightarrow> size t = Suc (size_list (size_prod (\<lambda>_. 0) size) hints)"
  by (cases t) simp_all

lemma iter_args_size:
  "iter_args lst args n = Some (Inr t) \<Longrightarrow>
     size t < (case lst of None \<Rightarrow> 0 | Some l \<Rightarrow> Suc (size l)) + size_list size args"
  by (induction lst args n rule: iter_args.induct)
     (fastforce split: if_splits option.splits nat.splits)+

text \<open>
  The dispatcher and the five recursive strategies.  Each \<^verbatim>\<open>for\<close> loop is a function of
  its own: \<open>union_loop\<close> (with the variable \<^verbatim>\<open>decoded\<close>, unbound before the first
  round), \<open>tuple_loop\<close> (the loop over \<^verbatim>\<open>enumerate(zip(_iter_args(...), json))\<close>, where
  \<^verbatim>\<open>zip\<close> asks the generator first and the input second), \<open>list_loop\<close>,
  \<open>class_parameters\<close> (the comprehension) and \<open>dict_loop\<close>.
\<close>

function (sequential) decode :: "runtime \<Rightarrow> ty \<Rightarrow> pyval \<Rightarrow> path \<Rightarrow> pyval outcome"
and decode_as_union :: "runtime \<Rightarrow> ty \<Rightarrow> pyval \<Rightarrow> path \<Rightarrow> pyval outcome"
and union_loop :: "runtime \<Rightarrow> ty list \<Rightarrow> pyval \<Rightarrow> path \<Rightarrow> pyval outcome option \<Rightarrow> pyval outcome"
and decode_as_tuple :: "runtime \<Rightarrow> ty \<Rightarrow> pyval \<Rightarrow> path \<Rightarrow> pyval outcome"
and tuple_loop :: "runtime \<Rightarrow> ty list \<Rightarrow> pyval list \<Rightarrow> nat \<Rightarrow> path \<Rightarrow> pyval list \<Rightarrow> pyval outcome"
and decode_as_list :: "runtime \<Rightarrow> ty \<Rightarrow> pyval \<Rightarrow> path \<Rightarrow> pyval outcome"
and list_loop :: "runtime \<Rightarrow> ty \<Rightarrow> pyval list \<Rightarrow> nat \<Rightarrow> path \<Rightarrow> pyval list \<Rightarrow> pyval outcome"
and decode_as_class :: "runtime \<Rightarrow> ty \<Rightarrow> pyval \<Rightarrow> path \<Rightarrow> pyval outcome"
and class_parameters :: "runtime \<Rightarrow> (string \<times> ty) list \<Rightarrow> (pyval \<times> pyval) list \<Rightarrow> path \<Rightarrow> (string \<times> pyval outcome) list"
and decode_as_dict :: "runtime \<Rightarrow> ty \<Rightarrow> pyval \<Rightarrow> path \<Rightarrow> pyval outcome"
and dict_loop :: "runtime \<Rightarrow> ty \<Rightarrow> ty \<Rightarrow> (pyval \<times> pyval) list \<Rightarrow> path \<Rightarrow> (pyval \<times> pyval) list \<Rightarrow> pyval outcome"
where
  "decode rt t json path =
     run_decoders (DecodingError (UnsupportedDecoding path))
       [decode_as_union rt t json path,
        decode_as_tuple rt t json path,
        decode_as_list rt t json path,
        decode_as_primitive rt t json path,
        decode_as_class rt t json path,
        decode_as_dict rt t json path,
        decode_as_any rt t json path]"
| "decode_as_union rt t json path =
     (if origin_of t = Some OUnion then
        (if list_ex is_TypeVar (args_of t) then Failed (DecodingError (UnsupportedDecoding path))
         else union_loop rt (args_of t) json path None)
      else Failed (DecodingError (UnsupportedDecoding path)))"
| "union_loop rt [] json path decoded =
     (case decoded of None \<Rightarrow> Raised (UnboundLocalError ''decoded'') | Some d \<Rightarrow> d)"
| "union_loop rt (t # ts) json path decoded =
     (case decode rt t json path of
        Failed err \<Rightarrow> union_loop rt ts json path (Some (Failed err))
      | Decoded v \<Rightarrow> Decoded v
      | Raised e \<Rightarrow> Raised e)"
| "decode_as_tuple rt t json path =
     (if origin_of t = Some OTuple then
        (if json = VNone then Failed (DecodingError (TypeMismatch path))
         else
           (case py_len json of
              Inl e \<Rightarrow> Raised e
            | Inr len \<Rightarrow>
                (case required_length (args_of t) of
                   Inl e \<Rightarrow> Raised e
                 | Inr required \<Rightarrow>
                     (if required > int len then Failed (DecodingError (TypeMismatch path))
                      else
                        (case py_iter json of
                           None \<Rightarrow> Raised (TypeError ''object is not iterable'')
                         | Some xs \<Rightarrow> tuple_loop rt (args_of t) xs 0 path [])))))
      else Failed (DecodingError (UnsupportedDecoding path)))"
| "tuple_loop rt args xs index path list_decoded =
     (case iter_args None args index of
        None \<Rightarrow> Decoded (VTuple list_decoded)
      | Some (Inl e) \<Rightarrow> Raised e
      | Some (Inr t) \<Rightarrow>
          (case xs of
             [] \<Rightarrow> Decoded (VTuple list_decoded)
           | element # rest \<Rightarrow>
               (case decode rt t element (path @ [str_nat index]) of
                  Decoded d \<Rightarrow> tuple_loop rt args rest (Suc index) path (list_decoded @ [d])
                | Failed err \<Rightarrow> Failed err
                | Raised e \<Rightarrow> Raised e)))"
| "decode_as_list rt t json path =
     (if origin_of t = Some OList then
        (case args_of t of
           [] \<Rightarrow> Raised (IndexError ''tuple index out of range'')
         | Element # _ \<Rightarrow>
             (case py_iter json of
                None \<Rightarrow> Failed (DecodingError (TypeMismatch path))
              | Some xs \<Rightarrow> list_loop rt Element xs 0 path []))
      else Failed (DecodingError (UnsupportedDecoding path)))"
| "list_loop rt Element [] index path list_decoded = Decoded (VList list_decoded)"
| "list_loop rt Element (element # rest) index path list_decoded =
     (case decode rt Element element (path @ [str_nat index]) of
        Decoded d \<Rightarrow> list_loop rt Element rest (Suc index) path (list_decoded @ [d])
      | Failed err \<Rightarrow> Failed err
      | Raised e \<Rightarrow> Raised e)"
| "decode_as_class rt t json path =
     (case hints_of t of
        None \<Rightarrow> Failed (DecodingError (UnsupportedDecoding path))
      | Some annotations \<Rightarrow>
          (case json of
             VDict items \<Rightarrow>
               (let parameters = class_parameters rt annotations items path in
                case find_raised parameters of
                  Some e \<Rightarrow> Raised e
                | None \<Rightarrow>
                    (case find_failed parameters of
                       Some err \<Rightarrow> Failed err
                     | None \<Rightarrow>
                         (case construct rt t (decoded_parameters parameters) of
                            Inr obj \<Rightarrow> Decoded obj
                          | Inl (TypeError msg) \<Rightarrow>
                              Failed (DecodingError (InitializationError path (TypeError msg)))
                          | Inl e \<Rightarrow> Raised e)))
           | _ \<Rightarrow> Failed (DecodingError (UnsupportedDecoding path))))"
| "class_parameters rt [] items path = []"
| "class_parameters rt ((p, a) # annotations) items path =
     (if dict_contains items p
      then (p, decode rt a (dict_get items p) (path @ [p])) # class_parameters rt annotations items path
      else class_parameters rt annotations items path)"
| "decode_as_dict rt t json path =
     (case json of
        VDict items \<Rightarrow>
          (if origin_of t = Some ODict then
             (case args_of t of
                [KeyElement, ValueElement] \<Rightarrow> dict_loop rt KeyElement ValueElement items path []
              | _ \<Rightarrow> Raised (ValueError ''cannot unpack the type arguments''))
           else Failed (DecodingError (UnsupportedDecoding path)))
      | _ \<Rightarrow> Failed (DecodingError (UnsupportedDecoding path)))"
| "dict_loop rt KeyElement ValueElement [] path dict_decoded = Decoded (VDict dict_decoded)"
| "dict_loop rt KeyElement ValueElement ((key, element) # rest) path dict_decoded =
     (case decode rt ValueElement element (path @ [py_str rt key]) of
        Failed err \<Rightarrow> Failed err
      | Raised e \<Rightarrow> Raised e
      | Decoded decoded_value \<Rightarrow>
          (case decode rt KeyElement key (path @ [py_str rt key]) of
             Failed err \<Rightarrow> Failed err
           | Raised e \<Rightarrow> Raised e
           | Decoded decoded_key \<Rightarrow>
               (case dict_setitem rt dict_decoded decoded_key decoded_value of
                  Inl e \<Rightarrow> Raised e
                | Inr d \<Rightarrow> dict_loop rt KeyElement ValueElement rest path d)))"
  by pat_completeness auto

termination
  apply (relation "inv_image (less_than <*lex*> less_than)
    (\<lambda>x. case x of
       Inl a \<Rightarrow>
         (case a of
            Inl b \<Rightarrow>
              (case b of
                 Inl (rt, t, json, path) \<Rightarrow> (3 * size t + 2, 0)
               | Inr (rt, t, json, path) \<Rightarrow> (3 * size t + 1, 0))
          | Inr b \<Rightarrow>
              (case b of
                 Inl (rt, args, json, path, decoded) \<Rightarrow> (3 * size_list size args, 0)
               | Inr c \<Rightarrow>
                   (case c of
                      Inl (rt, t, json, path) \<Rightarrow> (3 * size t + 1, 0)
                    | Inr (rt, args, xs, index, path, acc) \<Rightarrow> (3 * size_list size args, length xs))))
     | Inr a \<Rightarrow>
         (case a of
            Inl b \<Rightarrow>
              (case b of
                 Inl (rt, t, json, path) \<Rightarrow> (3 * size t + 1, 0)
               | Inr c \<Rightarrow>
                   (case c of
                      Inl (rt, Element, xs, index, path, acc) \<Rightarrow> (3 * size Element + 3, length xs)
                    | Inr (rt, t, json, path) \<Rightarrow> (3 * size t + 1, 0)))
          | Inr b \<Rightarrow>
              (case b of
                 Inl (rt, hints, items, path) \<Rightarrow> (3 * size_list (size_prod (\<lambda>_. 0) size) hints, 0)
               | Inr c \<Rightarrow>
                   (case c of
                      Inl (rt, t, json, path) \<Rightarrow> (3 * size t + 1, 0)
                    | Inr (rt, KeyElement, ValueElement, items, path, acc) \<Rightarrow>
                        (3 * (size KeyElement + size ValueElement) + 3, length items)))))")
  apply (auto dest!: size_args_of size_hints_of iter_args_size)
  done

text \<open>
  The equations whose left-hand sides match every call are unfolded on request only;
  \<open>decode_eval\<close> collects what evaluates a call on a concrete descriptor and input.
\<close>

declare decode.simps [simp del]
declare decode_as_union.simps [simp del]
declare decode_as_tuple.simps [simp del]
declare tuple_loop.simps [simp del]
declare decode_as_list.simps [simp del]
declare decode_as_class.simps [simp del]
declare decode_as_dict.simps [simp del]

lemmas decode_eval =
  decode.simps decode_as_union.simps decode_as_tuple.simps tuple_loop.simps
  decode_as_list.simps decode_as_class.simps decode_as_dict.simps
  decode_as_primitive_def decode_as_any_def primitives_def py_len_def required_length_def
  str_nat.simps


section \<open>Notions used to state the properties\<close>

text \<open>The property \<^verbatim>\<open>underlying\<close>, which only an \<^verbatim>\<open>InitializationError\<close> has.\<close>

fun underlying_of :: "'u reason_of \<Rightarrow> 'u option" where
  "underlying_of (InitializationError p u) = Some u"
| "underlying_of _ = None"

text \<open>The tuple \<^verbatim>\<open>decoders\<close> of \<^verbatim>\<open>decode\<close>, in its order.\<close>

definition decoders :: "(runtime \<Rightarrow> ty \<Rightarrow> pyval \<Rightarrow> path \<Rightarrow> pyval outcome) list" where
  "decoders =
     [decode_as_union, decode_as_tuple, decode_as_list, decode_as_primitive,
      decode_as_class, decode_as_dict, decode_as_any]"

text \<open>
  A result is a failure when it is a returned \<^verbatim>\<open>DecodingError\<close>, unsupported when the
  reason of that error is an \<^verbatim>\<open>UnsupportedDecoding\<close>, and definitive when it is a failure
  with any other reason.
\<close>

fun is_failure :: "'a outcome \<Rightarrow> bool" where
  "is_failure (Failed err) = True"
| "is_failure _ = False"

fun is_unsupported :: "'a outcome \<Rightarrow> bool" where
  "is_unsupported (Failed (DecodingError (UnsupportedDecoding p))) = True"
| "is_unsupported _ = False"

definition is_definitive :: "'a outcome \<Rightarrow> bool" where
  "is_definitive r = (is_failure r \<and> \<not> is_unsupported r)"

text \<open>
  A runtime for the examples.  Its \<^verbatim>\<open>float\<close> of an integer is exact; its keys are equal
  when they are the same value; every object is hashable; a scalar type over a wire
  supertype returns its argument, as a \<^verbatim>\<open>NewType\<close> does; the class \<^verbatim>\<open>Strict\<close> has no
  defaults, so that its call without all of its fields raises \<^verbatim>\<open>TypeError\<close>, and every
  other class has a default for each field.
\<close>

definition example_runtime :: runtime where
  "example_runtime =
     \<lparr> float_of_int = (\<lambda>i. Inr (real_of_int i)),
       str_of = (\<lambda>v. ''?''),
       hashable_object = (\<lambda>c. True),
       key_eq = (\<lambda>a b. a = b),
       construct = (\<lambda>t ps.
          case t of
            TClass name hints \<Rightarrow>
              (if name = ''Strict'' \<and> map fst ps \<noteq> map fst hints
               then Inl (TypeError ''missing a required argument'')
               else Inr (VObject name ps))
          | _ \<Rightarrow> Inl (TypeError ''object is not callable'')),
       rehydrate = (\<lambda>t v. Inr v) \<rparr>"

text \<open>
  The required minimum length of the input of the tuple strategy, in the words of the
  specification: the count of element descriptors minus 2 if the list ends in a variadic
  marker, else the full count.
\<close>

definition required_minimum :: "ty list \<Rightarrow> int" where
  "required_minimum args =
     (if args \<noteq> [] \<and> last args = TEllipsis then int (length args) - 2 else int (length args))"

text \<open>
  An item of the input dictionary is decoded to a key and a value when its value decodes
  against the value descriptor and its key against the key descriptor, both at the path
  extended by \<^verbatim>\<open>str(key)\<close>, and the decoded key can be hashed.  \<open>store_all\<close> assigns
  decoded items to a dictionary one after the other.
\<close>

definition entry_decoded :: "runtime \<Rightarrow> ty \<Rightarrow> ty \<Rightarrow> path \<Rightarrow> pyval \<times> pyval \<Rightarrow> pyval \<times> pyval \<Rightarrow> bool" where
  "entry_decoded rt KeyElement ValueElement path item decoded_item =
     (decode rt ValueElement (snd item) (path @ [py_str rt (fst item)]) = Decoded (snd decoded_item)
      \<and> decode rt KeyElement (fst item) (path @ [py_str rt (fst item)]) = Decoded (fst decoded_item)
      \<and> py_hashable rt (fst decoded_item))"

definition store_all :: "runtime \<Rightarrow> (pyval \<times> pyval) list \<Rightarrow> (pyval \<times> pyval) list \<Rightarrow> (pyval \<times> pyval) list" where
  "store_all rt d decoded_items = foldl (\<lambda>d (k, v). dict_store rt d k v) d decoded_items"











section \<open>Equality of failure reasons\<close>

text \<open>
  Claim C8.  Two failure reasons compare equal exactly when they are of the same class and
  have the same path and, for two \<^verbatim>\<open>InitializationError\<close>s, their underlying construction
  failure is the same object; reasons of different classes are never equal; and a
  \<^verbatim>\<open>DecodingError\<close> equals another exactly when the wrapped reasons are equal.
\<close>

theorem reason_equality:
  "reason_eq a b =
     (class_of a = class_of b \<and> path_of a = path_of b \<and>
      (case (underlying_of a, underlying_of b) of
         (Some u, Some w) \<Rightarrow> address u = address w
       | _ \<Rightarrow> True))
   \<and> (class_of a \<noteq> class_of b \<longrightarrow> \<not> reason_eq a b)
   \<and> decoding_error_eq (DecodingError a) (DecodingError b) = reason_eq a b"
  by (cases a; cases b) (auto simp: exception_eq_def)

text \<open>
  Two \<^verbatim>\<open>InitializationError\<close>s at the same path are equal when they hold the same
  \<^verbatim>\<open>TypeError\<close> object, and differ when they hold two objects, even of the same content.
\<close>

theorem reason_equality_witness:
  "reason_eq (InitializationError [''a''] (ExceptionObject 1 (TypeError ''m'')))
             (InitializationError [''a''] (ExceptionObject 1 (TypeError ''m'')))
   \<and> \<not> reason_eq (InitializationError [''a''] (ExceptionObject 1 (TypeError ''m'')))
               (InitializationError [''a''] (ExceptionObject 2 (TypeError ''m'')))
   \<and> \<not> reason_eq (InitializationError [''a''] (ExceptionObject 1 (TypeError ''m'')))
               (InitializationError [''b''] (ExceptionObject 1 (TypeError ''m'')))
   \<and> \<not> reason_eq (TypeMismatch [''a'']) (UnsupportedDecoding [''a''])
   \<and> \<not> reason_eq (TypeMismatch [''a'']) (TypeMismatch [''b''])
   \<and> reason_eq (UnsupportedDecoding [''a'']) (UnsupportedDecoding [''a''])
   \<and> decoding_error_eq (DecodingError (TypeMismatch [''a''])) (DecodingError (TypeMismatch [''a'']))"
proof -
  let ?e1 = "ExceptionObject 1 (TypeError ''m'')"
  let ?e2 = "ExceptionObject 2 (TypeError ''m'')"
  have 1: "reason_eq (InitializationError [''a''] ?e1) (InitializationError [''a''] ?e1)"
    using reason_equality [of "InitializationError [''a''] ?e1" "InitializationError [''a''] ?e1"]
    by simp
  have 2: "\<not> reason_eq (InitializationError [''a''] ?e1) (InitializationError [''a''] ?e2)"
    using reason_equality [of "InitializationError [''a''] ?e1" "InitializationError [''a''] ?e2"]
    by simp
  have 3: "\<not> reason_eq (InitializationError [''a''] ?e1) (InitializationError [''b''] ?e1)"
    using reason_equality [of "InitializationError [''a''] ?e1" "InitializationError [''b''] ?e1"]
    by simp
  have 4: "\<not> reason_eq (TypeMismatch [''a'']) (UnsupportedDecoding [''a''])"
    using reason_equality [of "TypeMismatch [''a'']" "UnsupportedDecoding [''a'']"]
    by simp
  have 5: "\<not> reason_eq (TypeMismatch [''a'']) (TypeMismatch [''b''])"
    using reason_equality [of "TypeMismatch [''a'']" "TypeMismatch [''b'']"]
    by simp
  have 6: "reason_eq (UnsupportedDecoding [''a'']) (UnsupportedDecoding [''a''])"
    using reason_equality [of "UnsupportedDecoding [''a'']" "UnsupportedDecoding [''a'']"]
    by simp
  have 7: "decoding_error_eq (DecodingError (TypeMismatch [''a''])) (DecodingError (TypeMismatch [''a'']))"
    using reason_equality [of "TypeMismatch [''a'']" "TypeMismatch [''a'']"]
    by simp
  from 1 2 3 4 5 6 7 show ?thesis by blast
qed

section \<open>The dispatcher\<close>

text \<open>
  The loop of the dispatcher returns the first result that is not a failure; when every
  result is a failure it returns the last definitive one, or the initial result when
  there is none.
\<close>

lemma run_decoders_char:
  "run_decoders best rs =
     (case dropWhile is_failure rs of
        r # _ \<Rightarrow> r
      | [] \<Rightarrow> last (Failed best # filter is_definitive rs))"
proof (induction rs arbitrary: best)
  case Nil
  show ?case by simp
next
  case (Cons r rs)
  show ?case
  proof (cases r)
    case (Decoded v)
    then show ?thesis by simp
  next
    case (Raised e)
    then show ?thesis by simp
  next
    case (Failed err)
    obtain rsn where err: "err = DecodingError rsn" by (cases err)
    have fail: "is_failure r" using Failed by simp
    show ?thesis
    proof (cases "class_of rsn = UnsupportedDecodingClass")
      case True
      then obtain p where "rsn = UnsupportedDecoding p" by (cases rsn) auto
      then have nd: "\<not> is_definitive r"
        using Failed err by (simp add: is_definitive_def)
      have "run_decoders best (r # rs) = run_decoders best rs"
        using True Failed err by simp
      with fail nd show ?thesis
        by (simp add: Cons.IH cong: list.case_cong)
    next
      case False
      then have d: "is_definitive r"
        using Failed err by (cases rsn) (auto simp: is_definitive_def)
      have "run_decoders best (r # rs) = run_decoders err rs"
        using False Failed err by simp
      with fail d Failed show ?thesis
        by (simp add: Cons.IH cong: list.case_cong)
    qed
  qed
qed

text \<open>
  Claim C1.  \<^verbatim>\<open>decode\<close> runs the loop on the results of the strategies in the fixed order
  union, tuple, list, primitive, class, dict, any, starting from
  \<^verbatim>\<open>DecodingError(UnsupportedDecoding(path))\<close>.  On any list of results and any starting
  value, the loop returns the first result that is not a failure, whatever comes after it;
  when every result is a failure it returns the last definitive one, so that a definitive
  failure replaces the stored result and the loop goes on, and an
  \<^verbatim>\<open>UnsupportedDecoding\<close> replaces nothing; and when every result is an
  \<^verbatim>\<open>UnsupportedDecoding\<close> it returns the starting value.
\<close>

theorem decode_dispatch:
  "decode rt t json path =
     run_decoders (DecodingError (UnsupportedDecoding path)) (map (\<lambda>d. d rt t json path) decoders)
   \<and> run_decoders best results =
       (case dropWhile is_failure results of
          r # _ \<Rightarrow> r
        | [] \<Rightarrow> last (Failed best # filter is_definitive results))
   \<and> ((\<forall>r \<in> set results. is_unsupported r) \<longrightarrow> run_decoders best results = Failed best)"
proof -
  have eq: "decode rt t json path =
      run_decoders (DecodingError (UnsupportedDecoding path)) (map (\<lambda>d. d rt t json path) decoders)"
    by (simp only: decode.simps decoders_def list.map)
  have second: "run_decoders best results = Failed best"
    if all: "\<forall>r \<in> set results. is_unsupported r"
  proof -
    have a: "\<forall>r \<in> set results. is_failure r \<and> \<not> is_definitive r"
    proof
      fix r assume "r \<in> set results"
      with all have u: "is_unsupported r" by blast
      then have "is_failure r" by (cases r rule: is_unsupported.cases) simp_all
      with u show "is_failure r \<and> \<not> is_definitive r" by (simp add: is_definitive_def)
    qed
    then have "dropWhile is_failure results = []" by simp
    moreover have "filter is_definitive results = []"
      using a by (simp add: filter_empty_conv)
    ultimately show ?thesis
      by (simp only: run_decoders_char list.case last.simps simp_thms if_True)
  qed
  from eq run_decoders_char second show ?thesis by blast
qed

text \<open>
  The order of the results matters and a definitive failure does not end the loop: the
  last of two definitive failures is returned, past a later \<^verbatim>\<open>UnsupportedDecoding\<close>; a
  success after a definitive failure is returned, and what follows it is not looked at.
\<close>

theorem decode_dispatch_witness:
  "run_decoders (DecodingError (UnsupportedDecoding [''x'']))
      [Failed (DecodingError (TypeMismatch [''a''])),
       Failed (DecodingError (UnsupportedDecoding [''b''])),
       Failed (DecodingError (InitializationError [''c''] (TypeError ''m''))),
       Failed (DecodingError (UnsupportedDecoding [''d'']))]
     = Failed (DecodingError (InitializationError [''c''] (TypeError ''m'')))
   \<and> run_decoders (DecodingError (UnsupportedDecoding [''x'']))
      [Failed (DecodingError (InitializationError [''c''] (TypeError ''m''))),
       Failed (DecodingError (UnsupportedDecoding [''b''])),
       Failed (DecodingError (TypeMismatch [''a''])),
       Failed (DecodingError (UnsupportedDecoding [''d'']))]
     = Failed (DecodingError (TypeMismatch [''a'']))
   \<and> run_decoders (DecodingError (UnsupportedDecoding [''x'']))
      [Failed (DecodingError (TypeMismatch [''a''])),
       Decoded (VInt 1),
       Raised (TypeError ''m''),
       Decoded (VInt 2)]
     = Decoded (VInt 1)
   \<and> run_decoders (DecodingError (UnsupportedDecoding [''x'']))
      [Failed (DecodingError (UnsupportedDecoding [''b''])),
       Failed (DecodingError (UnsupportedDecoding [''d'']))]
     = Failed (DecodingError (UnsupportedDecoding [''x'']))
   \<and> decode example_runtime (TScalar PyInt) (VBool True) [''x'']
     = Failed (DecodingError (TypeMismatch [''x'']))"
proof -
  let ?best = "DecodingError (UnsupportedDecoding [''x''])"
  let ?tm = "Failed (DecodingError (TypeMismatch [''a''])) :: pyval outcome"
  let ?ie = "Failed (DecodingError (InitializationError [''c''] (TypeError ''m''))) :: pyval outcome"
  let ?ub = "Failed (DecodingError (UnsupportedDecoding [''b''])) :: pyval outcome"
  let ?ud = "Failed (DecodingError (UnsupportedDecoding [''d''])) :: pyval outcome"
  have 1: "run_decoders ?best [?tm, ?ub, ?ie, ?ud] = ?ie"
    using decode_dispatch [of example_runtime TAny VNone "[]" ?best "[?tm, ?ub, ?ie, ?ud]"]
    by (simp add: is_definitive_def)
  have 2: "run_decoders ?best [?ie, ?ub, ?tm, ?ud] = ?tm"
    using decode_dispatch [of example_runtime TAny VNone "[]" ?best "[?ie, ?ub, ?tm, ?ud]"]
    by (simp add: is_definitive_def)
  have 3: "run_decoders ?best [?tm, Decoded (VInt 1), Raised (TypeError ''m''), Decoded (VInt 2)] = Decoded (VInt 1)"
    using decode_dispatch [of example_runtime TAny VNone "[]" ?best
        "[?tm, Decoded (VInt 1), Raised (TypeError ''m''), Decoded (VInt 2)]"]
    by (simp add: is_definitive_def)
  have u: "\<forall>r \<in> set [?ub, ?ud]. is_unsupported r" by simp
  from decode_dispatch [of example_runtime TAny VNone "[]" ?best "[?ub, ?ud]"] u
  have 4: "run_decoders ?best [?ub, ?ud] = Failed ?best"
    by blast
  have r: "map (\<lambda>d. d example_runtime (TScalar PyInt) (VBool True) [''x'']) decoders =
      [Failed (DecodingError (UnsupportedDecoding [''x''])),
       Failed (DecodingError (UnsupportedDecoding [''x''])),
       Failed (DecodingError (UnsupportedDecoding [''x''])),
       Failed (DecodingError (TypeMismatch [''x''])),
       Failed (DecodingError (UnsupportedDecoding [''x''])),
       Failed (DecodingError (UnsupportedDecoding [''x''])),
       Failed (DecodingError (UnsupportedDecoding [''x'']))]"
    by (simp add: decoders_def decode_as_union.simps decode_as_tuple.simps decode_as_list.simps
        decode_as_class.simps decode_as_dict.simps decode_as_primitive_def decode_as_any_def
        primitives_def)
  have 5: "decode example_runtime (TScalar PyInt) (VBool True) [''x''] = Failed (DecodingError (TypeMismatch [''x'']))"
    using decode_dispatch [of example_runtime "TScalar PyInt" "VBool True" "[''x'']" ?best "[]"]
    unfolding r by simp
  from 1 2 3 4 5 show ?thesis by blast
qed

section \<open>The primitive strategy\<close>

text \<open>
  Claim C7.  For a descriptor in the exact built-in scalar set (\<^verbatim>\<open>str\<close>, \<^verbatim>\<open>int\<close>, \<^verbatim>\<open>bool\<close>,
  \<^verbatim>\<open>NoneType\<close>, \<^verbatim>\<open>date\<close>, \<^verbatim>\<open>datetime\<close>) the primitive strategy returns the input
  unchanged exactly when the type of the input is that very class, and a \<^verbatim>\<open>TypeMismatch\<close>
  at the current path otherwise; a \<^verbatim>\<open>bool\<close> is not accepted as an \<^verbatim>\<open>int\<close> nor a
  \<^verbatim>\<open>datetime\<close> as a \<^verbatim>\<open>date\<close>.  In particular \<^verbatim>\<open>decode(bool, True)\<close> succeeds and
  \<^verbatim>\<open>decode(int, True)\<close> is a \<^verbatim>\<open>TypeMismatch\<close> at the empty path.
\<close>

theorem exact_scalar_decoding:
  "(s \<in> {PyStr, PyInt, PyBool, PyNoneType, PyDate, PyDatetime} \<longrightarrow>
      decode_as_primitive rt (TScalar s) json path =
        (if type_of json = Some s then Decoded json
         else Failed (DecodingError (TypeMismatch path))))
   \<and> decode_as_primitive rt (TScalar PyInt) (VBool b) path = Failed (DecodingError (TypeMismatch path))
   \<and> decode_as_primitive rt (TScalar PyDate) (VDatetime d) path = Failed (DecodingError (TypeMismatch path))
   \<and> decode rt (TScalar PyBool) (VBool True) [] = Decoded (VBool True)
   \<and> decode rt (TScalar PyInt) (VBool True) [] = Failed (DecodingError (TypeMismatch []))"
proof -
  have "decode_as_primitive rt (TScalar s) json path =
        (if type_of json = Some s then Decoded json
         else Failed (DecodingError (TypeMismatch path)))"
    if "s \<in> {PyStr, PyInt, PyBool, PyNoneType, PyDate, PyDatetime}"
    using that by (cases "type_of json") (auto simp: decode_as_primitive_def primitives_def)
  moreover have "decode_as_primitive rt (TScalar PyInt) (VBool b) path = Failed (DecodingError (TypeMismatch path))"
    by (simp add: decode_as_primitive_def primitives_def)
  moreover have "decode_as_primitive rt (TScalar PyDate) (VDatetime d) path = Failed (DecodingError (TypeMismatch path))"
    by (simp add: decode_as_primitive_def primitives_def)
  moreover have "decode rt (TScalar PyBool) (VBool True) [] = Decoded (VBool True)"
    by (simp add: decode_eval)
  moreover have "decode rt (TScalar PyInt) (VBool True) [] = Failed (DecodingError (TypeMismatch []))"
    by (simp add: decode_eval)
  ultimately show ?thesis by blast
qed

theorem exact_scalar_decoding_witness:
  "decode_as_primitive example_runtime (TScalar PyStr) (VStr ''x'') [''k''] = Decoded (VStr ''x'')
   \<and> decode_as_primitive example_runtime (TScalar PyStr) (VInt 3) [''k''] = Failed (DecodingError (TypeMismatch [''k'']))"
  using exact_scalar_decoding [of PyStr example_runtime "VStr ''x''" "[''k'']"]
        exact_scalar_decoding [of PyStr example_runtime "VInt 3" "[''k'']"]
  by simp

section \<open>An exception that escapes\<close>

text \<open>
  Claim C2 says that no exception ever escapes \<^verbatim>\<open>decode\<close>.  The tuple strategy guards
  \<^verbatim>\<open>len(json)\<close> against \<^verbatim>\<open>None\<close> only: on the input \<^verbatim>\<open>5\<close> and the descriptor
  \<^verbatim>\<open>Tuple[int]\<close> the \<^verbatim>\<open>TypeError\<close> of \<^verbatim>\<open>len\<close> escapes, whatever the runtime.
\<close>

theorem tuple_of_unsized_input_raises:
  "decode rt (TGeneric OTuple [TScalar PyInt]) (VInt 5) [] = Raised (TypeError ''object has no len()'')"
  by (simp add: decode_eval)

section \<open>The union strategy\<close>

text \<open>
  The loop over the alternatives returns the result of the first alternative that is not
  a failure, and the result of the last alternative when all of them fail.
\<close>

lemma union_loop_char:
  "union_loop rt args json path decoded =
     (case dropWhile (\<lambda>a. is_failure (decode rt a json path)) args of
        a # _ \<Rightarrow> decode rt a json path
      | [] \<Rightarrow>
          (if args = [] then (case decoded of None \<Rightarrow> Raised (UnboundLocalError ''decoded'') | Some d \<Rightarrow> d)
           else decode rt (last args) json path))"
proof (induction args arbitrary: decoded)
  case Nil
  show ?case by simp
next
  case (Cons a args)
  show ?case
  proof (cases "decode rt a json path")
    case (Decoded v)
    then show ?thesis by simp
  next
    case (Raised e)
    then show ?thesis by simp
  next
    case (Failed err)
    have step: "union_loop rt (a # args) json path decoded =
        union_loop rt args json path (Some (Failed err))"
      using Failed by simp
    have "is_failure (decode rt a json path)"
      using Failed by simp
    then have d: "dropWhile (\<lambda>a. is_failure (decode rt a json path)) (a # args) =
        dropWhile (\<lambda>a. is_failure (decode rt a json path)) args"
      by simp
    show ?thesis
      unfolding step Cons.IH [of "Some (Failed err)"] d
      using Failed by (simp cong: list.case_cong)
  qed
qed

text \<open>
  Claim C3.  For a union descriptor: if one of the alternatives is a \<^verbatim>\<open>TypeVar\<close> the
  strategy returns \<^verbatim>\<open>UnsupportedDecoding\<close> at the current path; otherwise the alternatives
  are decoded in declared order with the same value and the same path, the value of the
  first alternative that succeeds after failures is returned, and when every alternative
  fails the result is the error of the last one.
\<close>

theorem union_first_success:
  assumes "origin_of t = Some OUnion"
  shows "(list_ex is_TypeVar (args_of t) \<longrightarrow>
            decode_as_union rt t json path = Failed (DecodingError (UnsupportedDecoding path)))
         \<and> (\<not> list_ex is_TypeVar (args_of t) \<longrightarrow>
              (\<forall>pre alt post v.
                  args_of t = pre @ alt # post
                  \<and> (\<forall>a \<in> set pre. is_failure (decode rt a json path))
                  \<and> decode rt alt json path = Decoded v
                  \<longrightarrow> decode_as_union rt t json path = Decoded v)
              \<and> (args_of t \<noteq> [] \<and> (\<forall>a \<in> set (args_of t). is_failure (decode rt a json path))
                  \<longrightarrow> decode_as_union rt t json path = decode rt (last (args_of t)) json path))"
proof (intro conjI impI allI)
  assume "list_ex is_TypeVar (args_of t)"
  with assms show "decode_as_union rt t json path = Failed (DecodingError (UnsupportedDecoding path))"
    by (simp add: decode_as_union.simps)
next
  fix pre alt post v
  assume nt: "\<not> list_ex is_TypeVar (args_of t)"
    and h: "args_of t = pre @ alt # post
            \<and> (\<forall>a \<in> set pre. is_failure (decode rt a json path))
            \<and> decode rt alt json path = Decoded v"
  let ?P = "\<lambda>a. is_failure (decode rt a json path)"
  from h have d: "dropWhile ?P (args_of t) = alt # post"
    by (simp add: dropWhile_append3)
  show "decode_as_union rt t json path = Decoded v"
    unfolding decode_as_union.simps union_loop_char d
    using assms nt h by simp
next
  assume nt: "\<not> list_ex is_TypeVar (args_of t)"
    and h: "args_of t \<noteq> [] \<and> (\<forall>a \<in> set (args_of t). is_failure (decode rt a json path))"
  then have d: "dropWhile (\<lambda>a. is_failure (decode rt a json path)) (args_of t) = []"
    by simp
  show "decode_as_union rt t json path = decode rt (last (args_of t)) json path"
    unfolding decode_as_union.simps union_loop_char d
    using assms nt h by simp
qed

theorem union_first_success_witness:
  "decode_as_union example_runtime (TGeneric OUnion [TScalar PyInt, TScalar PyStr]) (VStr ''x'') [] = Decoded (VStr ''x'')
   \<and> decode_as_union example_runtime (TGeneric OUnion [TScalar PyInt, TScalar PyStr]) VNone [''k'']
       = Failed (DecodingError (TypeMismatch [''k'']))
   \<and> decode_as_union example_runtime (TGeneric OUnion [TScalar PyInt, TTypeVar ''T'']) (VInt 1) []
       = Failed (DecodingError (UnsupportedDecoding []))"
proof -
  let ?t = "TGeneric OUnion [TScalar PyInt, TScalar PyStr]"
  have o: "origin_of ?t = Some OUnion" by simp
  have nt: "\<not> list_ex is_TypeVar (args_of ?t)" by simp
  have a: "args_of ?t = [TScalar PyInt] @ TScalar PyStr # []
      \<and> (\<forall>a \<in> set [TScalar PyInt]. is_failure (decode example_runtime a (VStr ''x'') []))
      \<and> decode example_runtime (TScalar PyStr) (VStr ''x'') [] = Decoded (VStr ''x'')"
    by (simp add: decode_eval)
  have b: "args_of ?t \<noteq> [] \<and> (\<forall>a \<in> set (args_of ?t). is_failure (decode example_runtime a VNone [''k'']))"
    by (simp add: decode_eval)
  have l: "decode example_runtime (last (args_of ?t)) VNone [''k''] = Failed (DecodingError (TypeMismatch [''k'']))"
    by (simp add: decode_eval)
  let ?u = "TGeneric OUnion [TScalar PyInt, TTypeVar ''T'']"
  have c: "origin_of ?u = Some OUnion" "list_ex is_TypeVar (args_of ?u)" by simp_all
  from union_first_success [OF o, of example_runtime "VStr ''x''" "[]"] nt a
  have 1: "decode_as_union example_runtime ?t (VStr ''x'') [] = Decoded (VStr ''x'')"
    by blast
  from union_first_success [OF o, of example_runtime VNone "[''k'']"] nt b l
  have 2: "decode_as_union example_runtime ?t VNone [''k''] = Failed (DecodingError (TypeMismatch [''k'']))"
    by metis
  from union_first_success [OF c(1), of example_runtime "VInt 1" "[]"] c(2)
  have 3: "decode_as_union example_runtime ?u (VInt 1) [] = Failed (DecodingError (UnsupportedDecoding []))"
    by blast
  from 1 2 3 show ?thesis by blast
qed

section \<open>The tuple strategy\<close>

text \<open>
  What the generator yields: the descriptors before the first marker at their positions,
  and after them whatever the rest of the argument list makes of the last one.
\<close>

lemma iter_args_prefix:
  "TEllipsis \<notin> set pre \<Longrightarrow>
     iter_args lst (pre @ rest) n =
       (if n < length pre then Some (Inr (pre ! n))
        else iter_args (if pre = [] then lst else Some (last pre)) rest (n - length pre))"
proof (induction pre arbitrary: lst n)
  case Nil
  show ?case by simp
next
  case (Cons a pre)
  then have a: "a \<noteq> TEllipsis" and p: "TEllipsis \<notin> set pre" by auto
  show ?case
  proof (cases n)
    case 0
    with a show ?thesis by simp
  next
    case (Suc m)
    with a Cons.IH [OF p, of "Some a" m] show ?thesis
      by (cases pre) auto
  qed
qed

lemma iter_args_plain:
  "TEllipsis \<notin> set args \<Longrightarrow>
     iter_args lst args n = (if n < length args then Some (Inr (args ! n)) else None)"
  using iter_args_prefix [of args lst "[]" n] by simp

text \<open>
  The loop succeeds with the decoded elements when every position it reaches has a
  descriptor and decodes, and it ends where the generator or the input is exhausted.  With
  no marker among the descriptors it never looks past as many elements as there are
  descriptors.
\<close>

lemma tuple_loop_decoded:
  assumes "length ys \<le> length xs"
    and "\<forall>i<length ys. \<exists>a. iter_args None args (index + i) = Some (Inr a)
            \<and> decode rt a (xs ! i) (path @ [str_nat (index + i)]) = Decoded (ys ! i)"
    and "iter_args None args (index + length ys) = None
         \<or> (length ys = length xs \<and> (\<exists>a. iter_args None args (index + length ys) = Some (Inr a)))"
  shows "tuple_loop rt args xs index path acc = Decoded (VTuple (acc @ ys))"
  using assms
proof (induction ys arbitrary: xs index acc)
  case Nil
  then show ?case
    by (subst tuple_loop.simps) (auto split: list.splits)
next
  case (Cons y ys)
  from Cons.prems(1) obtain x xs' where xs: "xs = x # xs'" by (cases xs) auto
  from Cons.prems(2) [rule_format, of 0] obtain a where a: "iter_args None args index = Some (Inr a)"
      "decode rt a x (path @ [str_nat index]) = Decoded y"
    using xs by auto
  have step: "tuple_loop rt args xs index path acc = tuple_loop rt args xs' (Suc index) path (acc @ [y])"
    using a xs by (subst tuple_loop.simps) simp
  have 1: "length ys \<le> length xs'" using Cons.prems(1) xs by simp
  have 2: "\<forall>i<length ys. \<exists>a. iter_args None args (Suc index + i) = Some (Inr a)
            \<and> decode rt a (xs' ! i) (path @ [str_nat (Suc index + i)]) = Decoded (ys ! i)"
  proof (intro allI impI)
    fix i assume "i < length ys"
    then have "Suc i < length (y # ys)" by simp
    with Cons.prems(2) obtain b where "iter_args None args (index + Suc i) = Some (Inr b)"
        "decode rt b (xs ! Suc i) (path @ [str_nat (index + Suc i)]) = Decoded ((y # ys) ! Suc i)"
      by blast
    then show "\<exists>a. iter_args None args (Suc index + i) = Some (Inr a)
            \<and> decode rt a (xs' ! i) (path @ [str_nat (Suc index + i)]) = Decoded (ys ! i)"
      using xs by auto
  qed
  have 3: "iter_args None args (Suc index + length ys) = None
         \<or> (length ys = length xs' \<and> (\<exists>a. iter_args None args (Suc index + length ys) = Some (Inr a)))"
    using Cons.prems(3) xs by simp
  show ?case
    unfolding step using Cons.IH [OF 1 2 3, of "acc @ [y]"] by simp
qed

lemma tuple_loop_take:
  "TEllipsis \<notin> set args \<Longrightarrow>
     tuple_loop rt args xs index path acc =
     tuple_loop rt args (take (length args - index) xs) index path acc"
proof (induction xs arbitrary: index acc)
  case Nil
  show ?case by simp
next
  case (Cons x xs)
  show ?case
  proof (cases "index < length args")
    case False
    with Cons.prems show ?thesis
      by (subst tuple_loop.simps, subst (2) tuple_loop.simps) (simp add: iter_args_plain)
  next
    case True
    then have "length args - index = Suc (length args - Suc index)"
      by arith
    then have t: "take (length args - index) (x # xs) = x # take (length args - Suc index) xs"
      by simp
    show ?thesis
      unfolding t
      by (subst tuple_loop.simps, subst (2) tuple_loop.simps)
         (auto simp: iter_args_plain Cons.prems True Cons.IH [OF Cons.prems] split: outcome.splits)
  qed
qed

lemma tuple_loop_length:
  "TEllipsis \<notin> set args \<Longrightarrow> tuple_loop rt args xs index path acc = Decoded v \<Longrightarrow>
     \<exists>ys. v = VTuple ys \<and> length ys = length acc + min (length xs) (length args - index)"
proof (induction xs arbitrary: index acc)
  case Nil
  then show ?case
    by (subst (asm) tuple_loop.simps) (auto simp: iter_args_plain split: if_splits)
next
  case (Cons x xs)
  show ?case
  proof (cases "index < length args")
    case False
    with Cons.prems show ?thesis
      by (subst (asm) tuple_loop.simps) (auto simp: iter_args_plain)
  next
    case True
    with Cons.prems(2) obtain d where
      "tuple_loop rt args xs (Suc index) path (acc @ [d]) = Decoded v"
      by (subst (asm) tuple_loop.simps) (auto simp: iter_args_plain Cons.prems(1) split: outcome.splits)
    from Cons.IH [OF Cons.prems(1) this] True show ?thesis
      by auto
  qed
qed

text \<open>
  Claim C4.  For a tuple descriptor, the input \<^verbatim>\<open>None\<close> is a \<^verbatim>\<open>TypeMismatch\<close> at the current
  path, and so is an input whose length is below the required minimum.  An input that
  meets the minimum exactly, so that the variadic tail is empty, is decoded to the tuple
  of its decoded elements when each element decodes against the descriptor at its
  position with the path extended by its index.
\<close>

theorem tuple_length_check:
  assumes "origin_of t = Some OTuple"
  shows "decode_as_tuple rt t VNone path = Failed (DecodingError (TypeMismatch path))
    \<and> (\<forall>n. py_len json = Inr n \<and> int n < required_minimum (args_of t)
          \<longrightarrow> decode_as_tuple rt t json path = Failed (DecodingError (TypeMismatch path)))
    \<and> (\<forall>pre v xs ys.
          args_of t = pre @ [v, TEllipsis] \<and> TEllipsis \<notin> set pre \<and> v \<noteq> TEllipsis
          \<and> py_iter json = Some xs \<and> length xs = length pre \<and> length ys = length pre
          \<and> (\<forall>i<length pre. decode rt (pre ! i) (xs ! i) (path @ [str_nat i]) = Decoded (ys ! i))
          \<longrightarrow> decode_as_tuple rt t json path = Decoded (VTuple ys))"
proof (intro conjI allI impI)
  show "decode_as_tuple rt t VNone path = Failed (DecodingError (TypeMismatch path))"
    using assms by (simp add: decode_as_tuple.simps)
next
  fix n
  assume h: "py_len json = Inr n \<and> int n < required_minimum (args_of t)"
  then have "json \<noteq> VNone" by (auto simp: py_len_def)
  moreover have "args_of t \<noteq> []" using h by (auto simp: required_minimum_def)
  then have "required_length (args_of t) = Inr (required_minimum (args_of t))"
    by (simp add: required_length_def required_minimum_def)
  ultimately show "decode_as_tuple rt t json path = Failed (DecodingError (TypeMismatch path))"
    using assms h by (simp add: decode_as_tuple.simps)
next
  fix pre v xs ys
  assume h: "args_of t = pre @ [v, TEllipsis] \<and> TEllipsis \<notin> set pre \<and> v \<noteq> TEllipsis
          \<and> py_iter json = Some xs \<and> length xs = length pre \<and> length ys = length pre
          \<and> (\<forall>i<length pre. decode rt (pre ! i) (xs ! i) (path @ [str_nat i]) = Decoded (ys ! i))"
  then have args: "args_of t = pre @ [v, TEllipsis]" and pre: "TEllipsis \<notin> set pre" by simp_all
  have nn: "json \<noteq> VNone" using h by auto
  have len: "py_len json = Inr (length pre)" using h by (simp add: py_len_def)
  have req: "required_length (args_of t) = Inr (int (length pre))"
    using args by (simp add: required_length_def)
  have it: "iter_args None (args_of t) n =
      (if n < length pre then Some (Inr (pre ! n)) else Some (Inr v))" for n
    unfolding args using iter_args_prefix [OF pre, of None "[v, TEllipsis]" n] h
    by (auto split: nat.splits)
  have "tuple_loop rt (args_of t) xs 0 path [] = Decoded (VTuple ([] @ ys))"
    by (rule tuple_loop_decoded) (use h it in auto)
  with assms nn len req h show "decode_as_tuple rt t json path = Decoded (VTuple ys)"
    by (simp add: decode_as_tuple.simps)
qed

theorem tuple_length_check_witness:
  "decode_as_tuple example_runtime (TGeneric OTuple [TScalar PyInt, TScalar PyStr, TScalar PyBool, TEllipsis])
      (VList [VInt 1, VStr ''a'']) [] = Decoded (VTuple [VInt 1, VStr ''a''])
   \<and> decode_as_tuple example_runtime (TGeneric OTuple [TScalar PyInt, TScalar PyStr, TScalar PyBool, TEllipsis])
      (VList [VInt 1]) [] = Failed (DecodingError (TypeMismatch []))
   \<and> decode_as_tuple example_runtime (TGeneric OTuple [TScalar PyInt, TScalar PyStr, TScalar PyBool, TEllipsis])
      VNone [] = Failed (DecodingError (TypeMismatch []))"
proof -
  let ?t = "TGeneric OTuple [TScalar PyInt, TScalar PyStr, TScalar PyBool, TEllipsis]"
  have o: "origin_of ?t = Some OTuple" by simp
  have a: "args_of ?t = [TScalar PyInt, TScalar PyStr] @ [TScalar PyBool, TEllipsis]
      \<and> TEllipsis \<notin> set [TScalar PyInt, TScalar PyStr] \<and> TScalar PyBool \<noteq> TEllipsis
      \<and> py_iter (VList [VInt 1, VStr ''a'']) = Some [VInt 1, VStr ''a'']
      \<and> length [VInt 1, VStr ''a''] = length [TScalar PyInt, TScalar PyStr]
      \<and> length [VInt 1, VStr ''a''] = length [TScalar PyInt, TScalar PyStr]
      \<and> (\<forall>i<length [TScalar PyInt, TScalar PyStr].
            decode example_runtime ([TScalar PyInt, TScalar PyStr] ! i) ([VInt 1, VStr ''a''] ! i) ([] @ [str_nat i])
              = Decoded ([VInt 1, VStr ''a''] ! i))"
    by (simp add: decode_eval less_Suc_eq)
  have b: "py_len (VList [VInt 1]) = Inr 1 \<and> int 1 < required_minimum (args_of ?t)"
    by (simp add: py_len_def required_minimum_def)
  from tuple_length_check [OF o, of example_runtime "[]" "VList [VInt 1, VStr ''a'']"] a
  have 1: "decode_as_tuple example_runtime ?t (VList [VInt 1, VStr ''a'']) [] = Decoded (VTuple [VInt 1, VStr ''a''])"
    by blast
  from tuple_length_check [OF o, of example_runtime "[]" "VList [VInt 1]"] b
  have 2: "decode_as_tuple example_runtime ?t (VList [VInt 1]) [] = Failed (DecodingError (TypeMismatch []))"
    by blast
  from tuple_length_check [OF o, of example_runtime "[]" VNone]
  have 3: "decode_as_tuple example_runtime ?t VNone [] = Failed (DecodingError (TypeMismatch []))"
    by blast
  from 1 2 3 show ?thesis by blast
qed

text \<open>
  Claim C10.  For a tuple descriptor without a variadic marker and an input with at least
  as many elements as there are descriptors, the result is the result on the input cut to
  the number of descriptors: the extra elements are never looked at, and a successful
  result has exactly as many elements as the descriptor list.
\<close>

theorem tuple_ignores_extra_elements:
  assumes "origin_of t = Some OTuple"
    and "TEllipsis \<notin> set (args_of t)"
    and "py_iter json = Some xs"
    and "length (args_of t) \<le> length xs"
  shows "decode_as_tuple rt t json path =
           decode_as_tuple rt t (VList (take (length (args_of t)) xs)) path
    \<and> (\<forall>v. decode_as_tuple rt t json path = Decoded v
          \<longrightarrow> (\<exists>ys. v = VTuple ys \<and> length ys = length (args_of t)))"
proof
  have nn: "json \<noteq> VNone" using assms(3) by auto
  have len: "py_len json = Inr (length xs)" using assms(3) by (simp add: py_len_def)
  have len': "py_len (VList (take (length (args_of t)) xs)) = Inr (length (args_of t))"
    using assms(4) by (simp add: py_len_def)
  have req: "required_length (args_of t) = Inr (int (length (args_of t)))" if "args_of t \<noteq> []"
  proof -
    have "last (args_of t) \<noteq> TEllipsis"
      using that assms(2) by (metis last_in_set)
    with that show ?thesis by (simp add: required_length_def)
  qed
  have emp: "args_of t = [] \<Longrightarrow> required_length (args_of t) = Inl (IndexError ''tuple index out of range'')"
    by (simp add: required_length_def)
  have tk: "tuple_loop rt (args_of t) xs 0 path [] =
      tuple_loop rt (args_of t) (take (length (args_of t)) xs) 0 path []"
    using tuple_loop_take [OF assms(2), of rt xs 0 path "[]"] by simp
  show eq: "decode_as_tuple rt t json path =
      decode_as_tuple rt t (VList (take (length (args_of t)) xs)) path"
  proof (cases "args_of t = []")
    case True
    with assms nn len len' emp show ?thesis by (simp add: decode_as_tuple.simps)
  next
    case False
    with assms nn len len' req tk show ?thesis by (simp add: decode_as_tuple.simps)
  qed
  show "\<forall>v. decode_as_tuple rt t json path = Decoded v
          \<longrightarrow> (\<exists>ys. v = VTuple ys \<and> length ys = length (args_of t))"
  proof (intro allI impI)
    fix v assume d: "decode_as_tuple rt t json path = Decoded v"
    have ne: "args_of t \<noteq> []"
      using d assms nn len emp by (auto simp: decode_as_tuple.simps)
    with d assms nn len req have "tuple_loop rt (args_of t) xs 0 path [] = Decoded v"
      by (simp add: decode_as_tuple.simps)
    from tuple_loop_length [OF assms(2) this] assms(4)
    show "\<exists>ys. v = VTuple ys \<and> length ys = length (args_of t)" by auto
  qed
qed

theorem tuple_ignores_extra_elements_witness:
  "decode_as_tuple example_runtime (TGeneric OTuple [TScalar PyInt]) (VList [VInt 1, VInt 2, VInt 3]) []
     = Decoded (VTuple [VInt 1])"
proof -
  let ?t = "TGeneric OTuple [TScalar PyInt]"
  have h: "origin_of ?t = Some OTuple" "TEllipsis \<notin> set (args_of ?t)"
    "py_iter (VList [VInt 1, VInt 2, VInt 3]) = Some [VInt 1, VInt 2, VInt 3]"
    "length (args_of ?t) \<le> length [VInt 1, VInt 2, VInt 3]"
    by simp_all
  have "decode_as_tuple example_runtime ?t (VList (take (length (args_of ?t)) [VInt 1, VInt 2, VInt 3])) []
     = Decoded (VTuple [VInt 1])"
    by (simp add: decode_eval)
  with tuple_ignores_extra_elements [OF h, of example_runtime "[]"] show ?thesis
    by simp
qed

section \<open>The class strategy\<close>

text \<open>
  The comprehension decodes the hinted fields that are keys of the input, in the order of
  the hints, each at the path extended by its name.
\<close>

lemma class_parameters_char:
  "class_parameters rt annotations items path =
     map (\<lambda>(p, a). (p, decode rt a (dict_get items p) (path @ [p])))
       (filter (\<lambda>(p, a). dict_contains items p) annotations)"
  by (induction annotations) auto

lemma find_raised_decoded: "find_raised (map (\<lambda>(p, v). (p, Decoded v)) params) = None"
  by (induction params) auto

lemma find_failed_decoded: "find_failed (map (\<lambda>(p, v). (p, Decoded v)) params) = None"
  by (induction params) auto

lemma decoded_parameters_decoded: "decoded_parameters (map (\<lambda>(p, v). (p, Decoded v)) params) = params"
  by (induction params) auto

text \<open>
  Claim C5.  For a class descriptor and a dictionary input, only the hinted fields whose
  names are keys of the input are decoded, and only they are passed to the constructor.
  When all of them decode, the result is that of the keyword call of the class: a
  \<^verbatim>\<open>TypeError\<close> of the call is returned as an \<^verbatim>\<open>InitializationError\<close> at the current path that
  carries it.
\<close>

theorem record_construction:
  assumes "hints_of t = Some annotations"
  shows "class_parameters rt annotations items path =
           map (\<lambda>(p, a). (p, decode rt a (dict_get items p) (path @ [p])))
             (filter (\<lambda>(p, a). dict_contains items p) annotations)
    \<and> (\<forall>params. class_parameters rt annotations items path = map (\<lambda>(p, v). (p, Decoded v)) params
          \<longrightarrow> map fst params = filter (dict_contains items) (map fst annotations)
            \<and> decode_as_class rt t (VDict items) path =
                (case construct rt t params of
                   Inr obj \<Rightarrow> Decoded obj
                 | Inl (TypeError msg) \<Rightarrow> Failed (DecodingError (InitializationError path (TypeError msg)))
                 | Inl e \<Rightarrow> Raised e))
    \<and> (\<forall>params msg. class_parameters rt annotations items path = map (\<lambda>(p, v). (p, Decoded v)) params
          \<and> construct rt t params = Inl (TypeError msg)
          \<longrightarrow> decode_as_class rt t (VDict items) path =
                Failed (DecodingError (InitializationError path (TypeError msg))))"
proof -
  have names: "map fst (class_parameters rt annotations items path) =
      filter (dict_contains items) (map fst annotations)"
    by (induction annotations) auto
  have run: "decode_as_class rt t (VDict items) path =
                (case construct rt t params of
                   Inr obj \<Rightarrow> Decoded obj
                 | Inl (TypeError msg) \<Rightarrow> Failed (DecodingError (InitializationError path (TypeError msg)))
                 | Inl e \<Rightarrow> Raised e)"
    if "class_parameters rt annotations items path = map (\<lambda>(p, v). (p, Decoded v)) params" for params
    using assms that
    by (simp add: decode_as_class.simps find_raised_decoded find_failed_decoded decoded_parameters_decoded)
  have nm: "map fst params = filter (dict_contains items) (map fst annotations)"
    if "class_parameters rt annotations items path = map (\<lambda>(p, v). (p, Decoded v)) params" for params
  proof -
    have "map fst (map (\<lambda>(p, v). (p, Decoded v :: pyval outcome)) params) = map fst params"
      by (induction params) auto
    with names that show ?thesis by simp
  qed
  have fail: "decode_as_class rt t (VDict items) path =
                Failed (DecodingError (InitializationError path (TypeError msg)))"
    if "class_parameters rt annotations items path = map (\<lambda>(p, v). (p, Decoded v)) params"
      and "construct rt t params = Inl (TypeError msg)" for params msg
    using run [OF that(1)] that(2) by simp
  from class_parameters_char run nm fail show ?thesis by blast
qed

theorem record_construction_witness:
  "decode_as_class example_runtime (TClass ''Strict'' [(''name'', TScalar PyStr), (''age'', TScalar PyInt)])
      (VDict [(VStr ''name'', VStr ''Al'')]) []
     = Failed (DecodingError (InitializationError [] (TypeError ''missing a required argument'')))
   \<and> decode_as_class example_runtime (TClass ''Person'' [(''name'', TScalar PyStr), (''age'', TScalar PyInt)])
      (VDict [(VStr ''name'', VStr ''Al'')]) []
     = Decoded (VObject ''Person'' [(''name'', VStr ''Al'')])"
proof -
  let ?hints = "[(''name'', TScalar PyStr), (''age'', TScalar PyInt)]"
  let ?items = "[(VStr ''name'', VStr ''Al'')]"
  let ?params = "[(''name'', VStr ''Al'')]"
  have p: "class_parameters example_runtime ?hints ?items [] = map (\<lambda>(p, v). (p, Decoded v)) ?params"
    by (simp add: dict_contains_def dict_get_def decode_eval)
  have c: "construct example_runtime (TClass ''Strict'' ?hints) ?params = Inl (TypeError ''missing a required argument'')"
    by (simp add: example_runtime_def)
  have d: "construct example_runtime (TClass ''Person'' ?hints) ?params = Inr (VObject ''Person'' ?params)"
    by (simp add: example_runtime_def)
  have hs: "hints_of (TClass ''Strict'' ?hints) = Some ?hints" by simp
  have hp: "hints_of (TClass ''Person'' ?hints) = Some ?hints" by simp
  from record_construction [OF hs, of example_runtime ?items "[]"] p c
  have 1: "decode_as_class example_runtime (TClass ''Strict'' ?hints) (VDict ?items) []
     = Failed (DecodingError (InitializationError [] (TypeError ''missing a required argument'')))"
    by blast
  from record_construction [OF hp, of example_runtime ?items "[]"] p
  have "decode_as_class example_runtime (TClass ''Person'' ?hints) (VDict ?items) [] =
      (case construct example_runtime (TClass ''Person'' ?hints) ?params of
         Inr obj \<Rightarrow> Decoded obj
       | Inl (TypeError msg) \<Rightarrow> Failed (DecodingError (InitializationError [] (TypeError msg)))
       | Inl e \<Rightarrow> Raised e)"
    by blast
  with d have 2: "decode_as_class example_runtime (TClass ''Person'' ?hints) (VDict ?items) []
     = Decoded (VObject ''Person'' ?params)"
    by simp
  from 1 2 show ?thesis by blast
qed

section \<open>The dict strategy\<close>

text \<open>The loop over the items, after a run of items that decode.\<close>

lemma dict_loop_prefix:
  "list_all2 (entry_decoded rt KeyElement ValueElement path) pre dpre \<Longrightarrow>
     dict_loop rt KeyElement ValueElement (pre @ rest) path acc =
     dict_loop rt KeyElement ValueElement rest path (store_all rt acc dpre)"
proof (induction pre dpre arbitrary: acc rule: list_all2_induct)
  case Nil
  show ?case by (simp add: store_all_def)
next
  case (Cons item pre ditem dpre)
  obtain key element where item: "item = (key, element)" by (cases item)
  obtain dk dv where ditem: "ditem = (dk, dv)" by (cases ditem)
  from Cons.hyps(1) item ditem
  have "dict_loop rt KeyElement ValueElement ((item # pre) @ rest) path acc =
      dict_loop rt KeyElement ValueElement (pre @ rest) path (dict_store rt acc dk dv)"
    by (simp add: entry_decoded_def dict_setitem_def)
  also have "\<dots> = dict_loop rt KeyElement ValueElement rest path (store_all rt (dict_store rt acc dk dv) dpre)"
    by (rule Cons.IH)
  finally show ?case by (simp add: store_all_def ditem)
qed

text \<open>
  Claim C6.  For a dict descriptor with key and value descriptors and a dictionary input,
  the items are taken in the iteration order of the input.  After items that decode, an
  item whose value fails ends the decoding with that failure, whatever its key would
  give; an item whose value decodes and whose key fails ends it with the failure of the
  key; value and key are decoded at the same path, extended by \<^verbatim>\<open>str(key)\<close>.  When
  every item decodes the result is the dictionary obtained by assigning the decoded
  values to the decoded keys in that order.
\<close>

theorem dict_entries_in_order:
  assumes "origin_of t = Some ODict"
    and "args_of t = [KeyElement, ValueElement]"
    and "list_all2 (entry_decoded rt KeyElement ValueElement path) pre dpre"
  shows "(\<forall>key element post err.
            items = pre @ (key, element) # post
            \<and> decode rt ValueElement element (path @ [py_str rt key]) = Failed err
            \<longrightarrow> decode_as_dict rt t (VDict items) path = Failed err)
    \<and> (\<forall>key element post decoded_value err.
            items = pre @ (key, element) # post
            \<and> decode rt ValueElement element (path @ [py_str rt key]) = Decoded decoded_value
            \<and> decode rt KeyElement key (path @ [py_str rt key]) = Failed err
            \<longrightarrow> decode_as_dict rt t (VDict items) path = Failed err)
    \<and> (items = pre \<longrightarrow> decode_as_dict rt t (VDict items) path = Decoded (VDict (store_all rt [] dpre)))"
proof -
  have start: "decode_as_dict rt t (VDict (pre @ rest)) path =
      dict_loop rt KeyElement ValueElement rest path (store_all rt [] dpre)" for rest
    using assms(1,2) dict_loop_prefix [OF assms(3), of rest "[]"]
    by (simp add: decode_as_dict.simps)
  have 1: "decode_as_dict rt t (VDict items) path = Failed err"
    if "items = pre @ (key, element) # post"
      and "decode rt ValueElement element (path @ [py_str rt key]) = Failed err"
    for key element post err
    using that start [of "(key, element) # post"] by simp
  have 2: "decode_as_dict rt t (VDict items) path = Failed err"
    if "items = pre @ (key, element) # post"
      and "decode rt ValueElement element (path @ [py_str rt key]) = Decoded decoded_value"
      and "decode rt KeyElement key (path @ [py_str rt key]) = Failed err"
    for key element post decoded_value err
    using that start [of "(key, element) # post"] by simp
  have 3: "decode_as_dict rt t (VDict items) path = Decoded (VDict (store_all rt [] dpre))"
    if "items = pre"
    using that start [of "[]"] by simp
  from 1 2 3 show ?thesis by blast
qed

theorem dict_entries_in_order_witness:
  "decode_as_dict example_runtime (TGeneric ODict [TScalar PyStr, TScalar PyInt])
      (VDict [(VStr ''a'', VInt 1), (VStr ''b'', VStr ''x''), (VInt 3, VInt 4)]) [''m'']
     = Failed (DecodingError (TypeMismatch [''m'', ''b'']))
   \<and> decode_as_dict example_runtime (TGeneric ODict [TScalar PyStr, TScalar PyInt])
      (VDict [(VStr ''a'', VInt 1)]) [''m'']
     = Decoded (VDict [(VStr ''a'', VInt 1)])"
proof -
  let ?t = "TGeneric ODict [TScalar PyStr, TScalar PyInt]"
  have o: "origin_of ?t = Some ODict" and a: "args_of ?t = [TScalar PyStr, TScalar PyInt]"
    by simp_all
  have pre: "list_all2 (entry_decoded example_runtime (TScalar PyStr) (TScalar PyInt) [''m''])
      [(VStr ''a'', VInt 1)] [(VStr ''a'', VInt 1)]"
    by (simp add: entry_decoded_def py_str_def decode_eval)
  have v: "decode example_runtime (TScalar PyInt) (VStr ''x'') ([''m''] @ [py_str example_runtime (VStr ''b'')])
      = Failed (DecodingError (TypeMismatch [''m'', ''b'']))"
    by (simp add: py_str_def decode_eval)
  have s: "store_all example_runtime [] [(VStr ''a'', VInt 1)] = [(VStr ''a'', VInt 1)]"
    by (simp add: store_all_def)
  from dict_entries_in_order [OF o a pre, of "[(VStr ''a'', VInt 1), (VStr ''b'', VStr ''x''), (VInt 3, VInt 4)]"] v
  have 1: "decode_as_dict example_runtime ?t
      (VDict [(VStr ''a'', VInt 1), (VStr ''b'', VStr ''x''), (VInt 3, VInt 4)]) [''m'']
     = Failed (DecodingError (TypeMismatch [''m'', ''b'']))"
    by auto
  from dict_entries_in_order [OF o a pre, of "[(VStr ''a'', VInt 1)]"] s
  have 2: "decode_as_dict example_runtime ?t (VDict [(VStr ''a'', VInt 1)]) [''m'']
     = Decoded (VDict [(VStr ''a'', VInt 1)])"
    by auto
  from 1 2 show ?thesis by blast
qed


section \<open>Decoding a decoded value again\<close>

























lemma dict_store_values:
  "b \<in> set (map snd (dict_store rt d k v)) \<Longrightarrow> b = v \<or> b \<in> set (map snd d)"
  by (induction d) (fastforce split: if_splits)+




























end
